theory Spec2Isabelle
  imports Complex_Main
begin

section \<open>The gesture-driven animation engine of ThreeScene.tsx\<close>

text \<open>
  The scene component keeps its state in React refs and in closure variables of the
  mount effect; the model collects them in one record that every operation takes and
  returns. JavaScript numbers are modelled as mathematical reals: the rounding of IEEE
  doubles, and of the Float32Array stores, is outside the model. The clock
  (\<open>clock.getElapsedTime()\<close>) and \<open>Math.random()\<close> are inputs of the operations that
  read them.
\<close>

subsection \<open>Vectors (THREE.Vector3)\<close>

record Vector3 =
  vx :: real
  vy :: real
  vz :: real

definition origin :: Vector3 where
  "origin = \<lparr>vx = 0, vy = 0, vz = 0\<rparr>"

text \<open>\<open>a.lerp(v, alpha)\<close> of three.js: each component moves by \<open>(v - a) * alpha\<close>.\<close>

definition lerp :: "Vector3 \<Rightarrow> Vector3 \<Rightarrow> real \<Rightarrow> Vector3" where
  "lerp a v alpha =
     \<lparr>vx = vx a + (vx v - vx a) * alpha,
      vy = vy a + (vy v - vy a) * alpha,
      vz = vz a + (vz v - vz a) * alpha\<rparr>"

text \<open>Euclidean distance, the measure of "how close to the target".\<close>

definition vdist :: "Vector3 \<Rightarrow> Vector3 \<Rightarrow> real" where
  "vdist a b = sqrt ((vx a - vx b)\<^sup>2 + (vy a - vy b)\<^sup>2 + (vz a - vz b)\<^sup>2)"

subsection \<open>Scene state\<close>

text \<open>
  A memory artifact is a THREE.Group: its position, the point handed to \<open>lookAt\<close>,
  \<open>userData.birth\<close>, and the opacities of the materials in \<open>userData.matRefs\<close>
  (the photo's material and the border's, in this order).
\<close>

record MemoryGroup =
  position :: Vector3
  lookAtTarget :: Vector3
  birth :: real
  matRefs :: "real list"

record Scene =
  targetHandPos :: Vector3
  currentHandPos :: Vector3
  isPinchingRef :: bool
  pinchFactor :: real
  rotation_x :: real
  rotation_y :: real
  memories :: "MemoryGroup list"
  vPos :: "real list"
  vMeta :: "real list"
  vMat_opacity :: real
  tArray :: "real list"
  star_rotation_y :: real
  star_scale :: real

definition vCount :: nat where
  "vCount = 4000"

definition tCount :: nat where
  "tCount = 60"

subsection \<open>Mounting: the vortex particles and the trail buffer\<close>

text \<open>
  The initialisation loop of the vortex draws four random numbers per particle;
  \<open>rnd k\<close> is the k-th result of \<open>Math.random()\<close>.
\<close>

function vortex_init :: "(nat \<Rightarrow> real) \<Rightarrow> nat \<Rightarrow> real list \<Rightarrow> real list \<Rightarrow> real list \<times> real list" where
  "vortex_init rnd i pos meta =
     (if i < vCount then
        (let r = 8 + rnd (4 * i) * 25;
             theta = rnd (4 * i + 1) * pi * 2;
             pos1 = pos[i * 3 := cos theta * r];
             pos2 = pos1[i * 3 + 1 := (rnd (4 * i + 2) - 0.2) * 45];
             pos3 = pos2[i * 3 + 2 := sin theta * r];
             meta1 = meta[i * 2 := r];
             meta2 = meta1[i * 2 + 1 := 0.5 + rnd (4 * i + 3) * 1.5]
         in vortex_init rnd (Suc i) pos3 meta2)
      else (pos, meta))"
  by pat_completeness auto
termination
  by (relation "measure (\<lambda>(rnd, i, pos, meta). vCount - i)") auto

declare vortex_init.simps [simp del]

definition initScene :: "(nat \<Rightarrow> real) \<Rightarrow> Scene" where
  "initScene rnd =
     (let v = vortex_init rnd 0 (replicate (vCount * 3) 0) (replicate (vCount * 2) 0)
      in \<lparr>targetHandPos = \<lparr>vx = 0, vy = 0, vz = 0\<rparr>,
          currentHandPos = \<lparr>vx = 0, vy = 0, vz = 0\<rparr>,
          isPinchingRef = False,
          pinchFactor = 0,
          rotation_x = 0,
          rotation_y = 0,
          memories = [],
          vPos = fst v,
          vMeta = snd v,
          vMat_opacity = 0.5,
          tArray = replicate (tCount * 3) 0,
          star_rotation_y = 0,
          star_scale = 1\<rparr>)"

subsection \<open>The control surface: updateHandInteraction and addMemory\<close>

definition updateHandInteraction :: "real \<Rightarrow> real \<Rightarrow> bool \<Rightarrow> Scene \<Rightarrow> Scene" where
  "updateHandInteraction x y isPinching s =
     (let targetRX = (y - 0.5) * 0.25;
          targetRY = (x - 0.5) * 0.5
      in s\<lparr>targetHandPos := \<lparr>vx = (x - 0.5) * 60, vy = (0.5 - y) * 45, vz = 15\<rparr>,
            isPinchingRef := isPinching,
            rotation_x := rotation_x s + (targetRX - rotation_x s) * 0.04,
            rotation_y := rotation_y s + (targetRY - rotation_y s) * 0.04\<rparr>)"

text \<open>
  \<open>loader.load(url, onLoad)\<close> is given no error callback: the texture loader calls
  \<open>onLoad\<close> when the image has loaded and nothing of this component otherwise.
\<close>

datatype LoadResult = Loaded | LoadFailed

text \<open>
  The \<open>onLoad\<close> callback, with the three \<open>Math.random()\<close> results it draws and the
  elapsed time the clock shows when it runs.
\<close>

definition onLoad :: "real \<Rightarrow> real \<Rightarrow> real \<Rightarrow> real \<Rightarrow> Scene \<Rightarrow> Scene" where
  "onLoad rnd1 rnd2 rnd3 elapsed s =
     (let angle = rnd1 * pi * 2;
          radius = 15 + rnd2 * 8;
          height = rnd3 * 30 - 5;
          grp = \<lparr>position = \<lparr>vx = cos angle * radius, vy = height, vz = sin angle * radius\<rparr>,
                   lookAtTarget = \<lparr>vx = 0, vy = height, vz = 0\<rparr>,
                   birth = elapsed,
                   matRefs = [0, 0]\<rparr>
      in s\<lparr>memories := memories s @ [grp]\<rparr>)"

definition addMemory :: "LoadResult \<Rightarrow> real \<Rightarrow> real \<Rightarrow> real \<Rightarrow> real \<Rightarrow> Scene \<Rightarrow> Scene" where
  "addMemory res rnd1 rnd2 rnd3 elapsed s =
     (case res of
        Loaded \<Rightarrow> onLoad rnd1 rnd2 rnd3 elapsed s
      | LoadFailed \<Rightarrow> s)"

subsection \<open>The render tick: animate\<close>

definition vortex_body :: "real \<Rightarrow> real \<Rightarrow> real list \<Rightarrow> nat \<Rightarrow> real list \<Rightarrow> real list" where
  "vortex_body time pf meta i pos =
     (let idx = i * 3;
          r = meta ! (i * 2);
          speed = meta ! (i * 2 + 1);
          angle = time * 0.2 * speed;
          baseAngle = (real i / real vCount) * pi * 2 + angle;
          currentR = r * (1 + pf * 0.3);
          pos1 = pos[idx := cos baseAngle * currentR];
          pos2 = pos1[idx + 2 := sin baseAngle * currentR]
      in pos2[idx + 1 := pos2 ! (idx + 1) + cos (time + real i) * 0.01])"

function vortex_loop :: "real \<Rightarrow> real \<Rightarrow> real list \<Rightarrow> nat \<Rightarrow> real list \<Rightarrow> real list" where
  "vortex_loop time pf meta i pos =
     (if i < vCount then vortex_loop time pf meta (Suc i) (vortex_body time pf meta i pos)
      else pos)"
  by pat_completeness auto
termination
  by (relation "measure (\<lambda>(time, pf, meta, i, pos). vCount - i)") auto

declare vortex_loop.simps [simp del]

text \<open>The descending loop \<open>for (i = tCount - 1; i > 0; i--)\<close> over the trail array.\<close>

fun trail_shift :: "nat \<Rightarrow> real list \<Rightarrow> real list" where
  "trail_shift i t =
     (if i > 0 then
        (let t1 = t[i * 3 := t ! ((i - 1) * 3)];
             t2 = t1[i * 3 + 1 := t1 ! ((i - 1) * 3 + 1)];
             t3 = t2[i * 3 + 2 := t2 ! ((i - 1) * 3 + 2)]
         in trail_shift (i - 1) t3)
      else t)"

declare trail_shift.simps [simp del]

text \<open>The shift followed by the write of the hand position into slot 0.\<close>

definition trail_step :: "Vector3 \<Rightarrow> real list \<Rightarrow> real list" where
  "trail_step cur t =
     (let t1 = trail_shift (tCount - 1) t;
          t2 = t1[0 := vx cur];
          t3 = t2[1 := vy cur]
      in t3[2 := vz cur])"

text \<open>The body of \<open>memoriesGroupRef.current.children.forEach\<close>.\<close>

definition memory_step :: "real \<Rightarrow> MemoryGroup \<Rightarrow> MemoryGroup" where
  "memory_step time grp =
     (let age = time - birth grp;
          g1 = (if age < 1.5 then grp\<lparr>matRefs := map (\<lambda>m. age / 1.5) (matRefs grp)\<rparr>
                else grp)
      in g1\<lparr>position := (position g1)\<lparr>vy := vy (position g1)
               + sin (time + vx (position g1)) * 0.015\<rparr>\<rparr>)"

definition animate :: "real \<Rightarrow> Scene \<Rightarrow> Scene" where
  "animate time s =
     (let targetPinch = (if isPinchingRef s then 1 else 0);
          s1 = s\<lparr>pinchFactor := pinchFactor s + (targetPinch - pinchFactor s) * 0.1\<rparr>;
          s2 = s1\<lparr>vPos := vortex_loop time (pinchFactor s1) (vMeta s1) 0 (vPos s1)\<rparr>;
          s3 = s2\<lparr>vMat_opacity := 0.4 + pinchFactor s2 * 0.5\<rparr>;
          s4 = s3\<lparr>currentHandPos := lerp (currentHandPos s3) (targetHandPos s3) 0.12\<rparr>;
          s5 = s4\<lparr>tArray := trail_step (currentHandPos s4) (tArray s4)\<rparr>;
          s6 = s5\<lparr>memories := map (memory_step time) (memories s5)\<rparr>
      in s6\<lparr>star_rotation_y := star_rotation_y s6 + 0.02,
             star_scale := 1 + sin (time * 3) * 0.1\<rparr>)"

subsection \<open>The detection loop of App.tsx\<close>

record HandLandmark =
  lx :: real
  ly :: real
  lz :: real

text \<open>
  What \<open>handTrackingService.detect()\<close> returns: \<open>null\<close> while the landmarker or the
  video is not ready, \<open>{detected: false}\<close> when no hand is found, and the landmarks of
  the first hand otherwise.
\<close>

datatype DetectResult = NotReady | NotDetected | Detected "HandLandmark list"

text \<open>
  One pass of \<open>detectLoop\<close>, as far as the scene is concerned. The detector reports 21
  landmarks; on a list too short for index 9 the reads of \<open>.x\<close> throw before the scene is
  called, which leaves the scene as it is.
\<close>

definition detectLoop :: "DetectResult \<Rightarrow> Scene \<Rightarrow> Scene" where
  "detectLoop result s =
     (case result of
        Detected landmarks \<Rightarrow>
          (if length landmarks \<le> 9 then s
           else
             (let thumbTip = landmarks ! 4;
                  indexTip = landmarks ! 8;
                  palmCenter = landmarks ! 9;
                  distance = sqrt ((lx thumbTip - lx indexTip)\<^sup>2
                                   + (ly thumbTip - ly indexTip)\<^sup>2);
                  isPinching = (distance < 0.055)
              in updateHandInteraction (lx palmCenter) (ly palmCenter) isPinching s))
      | _ \<Rightarrow> s)"

subsection \<open>Sessions: sequences of callbacks\<close>

text \<open>
  After mounting, the scene changes only in three callbacks: a render frame at some
  elapsed time, a pass of the detection loop, and the end of an image load requested by
  \<open>addMemory\<close>.
\<close>

datatype Event =
    Tick real
  | Detect DetectResult
  | Load LoadResult real real real real

fun step :: "Event \<Rightarrow> Scene \<Rightarrow> Scene" where
  "step (Tick time) s = animate time s"
| "step (Detect result) s = detectLoop result s"
| "step (Load res rnd1 rnd2 rnd3 elapsed) s = addMemory res rnd1 rnd2 rnd3 elapsed s"

fun run :: "Event list \<Rightarrow> Scene \<Rightarrow> Scene" where
  "run [] s = s"
| "run (e # es) s = run es (step e s)"

text \<open>The events in which \<open>updateHandInteraction\<close> is called, and the render frames.\<close>

fun handCall :: "Event \<Rightarrow> bool" where
  "handCall (Detect (Detected landmarks)) = True"
| "handCall e = False"

fun isTick :: "Event \<Rightarrow> bool" where
  "isTick (Tick time) = True"
| "isTick e = False"

definition ticks :: "Event list \<Rightarrow> nat" where
  "ticks es = length (filter isTick es)"

text \<open>Slot \<open>i\<close> of a flat coordinate array: the three numbers from index \<open>3 i\<close>.\<close>

definition slot :: "real list \<Rightarrow> nat \<Rightarrow> Vector3" where
  "slot t i = \<lparr>vx = t ! (i * 3), vy = t ! (i * 3 + 1), vz = t ! (i * 3 + 2)\<rparr>"

subsection \<open>Concrete inputs and predicates on sessions\<close>

text \<open>A random source that always returns 0, a value \<open>Math.random()\<close> may return.\<close>

definition rnd0 :: "nat \<Rightarrow> real" where
  "rnd0 k = 0"

text \<open>The events that end a successful image load.\<close>

fun loadedOk :: "Event \<Rightarrow> bool" where
  "loadedOk (Load Loaded rnd1 rnd2 rnd3 elapsed) = True"
| "loadedOk e = False"

text \<open>The pinch flag is set at every render frame of the session: the target is constantly 1.\<close>

fun pinchingAtTicks :: "Event list \<Rightarrow> Scene \<Rightarrow> bool" where
  "pinchingAtTicks [] s = True"
| "pinchingAtTicks (e # es) s =
     ((if isTick e then isPinchingRef s else True) \<and> pinchingAtTicks es (step e s))"

text \<open>\<open>n\<close> render frames at 60 Hz, and nothing else.\<close>

definition frames :: "nat \<Rightarrow> Event list" where
  "frames n = map (\<lambda>k. Tick (real k / 60)) [1..<Suc n]"

text \<open>
  A session in which \<open>updateHandInteraction\<close> is never called: the detector reports no
  hand (or is not ready) in every pass of the detection loop.
\<close>

definition idle :: "Event list \<Rightarrow> bool" where
  "idle es = list_all (\<lambda>e. \<not> handCall e) es"

text \<open>The trail step run on its own with a given sequence of hand positions.\<close>

fun feed :: "Vector3 list \<Rightarrow> real list \<Rightarrow> real list" where
  "feed [] t = t"
| "feed (p # ps) t = feed ps (trail_step p t)"

text \<open>Sixty distinct positions: the k-th is \<open>(k, 0, 0)\<close>.\<close>

definition positions60 :: "Vector3 list" where
  "positions60 = map (\<lambda>k. \<lparr>vx = real k, vy = 0, vz = 0\<rparr>) [0..<60]"

section \<open>What each callback changes\<close>

lemma animate_targetHandPos: "targetHandPos (animate time s) = targetHandPos s"
  by (simp add: animate_def Let_def)

lemma animate_currentHandPos:
  "currentHandPos (animate time s) = lerp (currentHandPos s) (targetHandPos s) 0.12"
  by (simp add: animate_def Let_def)

lemma animate_isPinchingRef: "isPinchingRef (animate time s) = isPinchingRef s"
  by (simp add: animate_def Let_def)

lemma animate_pinchFactor:
  "pinchFactor (animate time s) =
     pinchFactor s + ((if isPinchingRef s then 1 else 0) - pinchFactor s) * 0.1"
  by (simp add: animate_def Let_def)

lemma animate_rotation:
  "rotation_x (animate time s) = rotation_x s \<and> rotation_y (animate time s) = rotation_y s"
  by (simp add: animate_def Let_def)

lemma animate_memories: "memories (animate time s) = map (memory_step time) (memories s)"
  by (simp add: animate_def Let_def)

lemma animate_vMeta: "vMeta (animate time s) = vMeta s"
  by (simp add: animate_def Let_def)

lemma animate_vPos:
  "vPos (animate time s) = vortex_loop time (pinchFactor (animate time s)) (vMeta s) 0 (vPos s)"
  by (simp add: animate_def Let_def)

lemma animate_vMat_opacity:
  "vMat_opacity (animate time s) = 0.4 + pinchFactor (animate time s) * 0.5"
  by (simp add: animate_def Let_def)

lemma animate_tArray:
  "tArray (animate time s) = trail_step (currentHandPos (animate time s)) (tArray s)"
  by (simp add: animate_def Let_def)

lemma addMemory_frame:
  "targetHandPos (addMemory res r1 r2 r3 el s) = targetHandPos s"
  "currentHandPos (addMemory res r1 r2 r3 el s) = currentHandPos s"
  "isPinchingRef (addMemory res r1 r2 r3 el s) = isPinchingRef s"
  "pinchFactor (addMemory res r1 r2 r3 el s) = pinchFactor s"
  "rotation_x (addMemory res r1 r2 r3 el s) = rotation_x s"
  "rotation_y (addMemory res r1 r2 r3 el s) = rotation_y s"
  "vPos (addMemory res r1 r2 r3 el s) = vPos s"
  "vMeta (addMemory res r1 r2 r3 el s) = vMeta s"
  "tArray (addMemory res r1 r2 r3 el s) = tArray s"
  by (simp_all add: addMemory_def onLoad_def Let_def split: LoadResult.split)

lemma updateHandInteraction_frame:
  "currentHandPos (updateHandInteraction x y p s) = currentHandPos s"
  "pinchFactor (updateHandInteraction x y p s) = pinchFactor s"
  "vPos (updateHandInteraction x y p s) = vPos s"
  "vMeta (updateHandInteraction x y p s) = vMeta s"
  "tArray (updateHandInteraction x y p s) = tArray s"
  "memories (updateHandInteraction x y p s) = memories s"
  by (simp_all add: updateHandInteraction_def Let_def)

lemma updateHandInteraction_latch:
  "isPinchingRef (updateHandInteraction x y p s) = p"
  "targetHandPos (updateHandInteraction x y p s)
     = \<lparr>vx = (x - 0.5) * 60, vy = (0.5 - y) * 45, vz = 15\<rparr>"
  by (simp_all add: updateHandInteraction_def Let_def)

lemma detectLoop_frame:
  "currentHandPos (detectLoop r s) = currentHandPos s"
  "pinchFactor (detectLoop r s) = pinchFactor s"
  "vPos (detectLoop r s) = vPos s"
  "vMeta (detectLoop r s) = vMeta s"
  "tArray (detectLoop r s) = tArray s"
  "memories (detectLoop r s) = memories s"
  by (simp_all add: detectLoop_def Let_def updateHandInteraction_frame split: DetectResult.split)

lemma detectLoop_idle: "\<not> handCall (Detect r) \<Longrightarrow> detectLoop r s = s"
  by (cases r) (simp_all add: detectLoop_def)

lemma initScene_fields:
  "targetHandPos (initScene rnd) = origin"
  "currentHandPos (initScene rnd) = origin"
  "isPinchingRef (initScene rnd) = False"
  "pinchFactor (initScene rnd) = 0"
  "rotation_x (initScene rnd) = 0"
  "rotation_y (initScene rnd) = 0"
  "memories (initScene rnd) = []"
  "tArray (initScene rnd) = replicate (tCount * 3) 0"
  by (simp_all add: initScene_def Let_def origin_def)

lemma step_pinchFactor:
  "pinchFactor (step e s) =
     (if isTick e then pinchFactor s + ((if isPinchingRef s then 1 else 0) - pinchFactor s) * 0.1
      else pinchFactor s)"
  by (cases e) (simp_all add: animate_pinchFactor detectLoop_frame addMemory_frame)

lemma ticks_Cons: "ticks (e # es) = (if isTick e then Suc (ticks es) else ticks es)"
  by (simp add: ticks_def)

lemma ticks_Nil: "ticks [] = 0"
  by (simp add: ticks_def)

lemma step_pinchFactor_bounds:
  assumes "0 \<le> pinchFactor s" "pinchFactor s \<le> 1"
  shows "0 \<le> pinchFactor (step e s) \<and> pinchFactor (step e s) \<le> 1"
  using assms by (auto simp add: step_pinchFactor field_simps)

lemma run_pinchFactor_bounds:
  "0 \<le> pinchFactor s \<Longrightarrow> pinchFactor s \<le> 1 \<Longrightarrow>
   0 \<le> pinchFactor (run es s) \<and> pinchFactor (run es s) \<le> 1"
proof (induction es arbitrary: s)
  case Nil
  then show ?case by simp
next
  case (Cons e es)
  from Cons.prems have "0 \<le> pinchFactor (step e s) \<and> pinchFactor (step e s) \<le> 1"
    by (rule step_pinchFactor_bounds)
  then show ?case using Cons.IH [of "step e s"] by simp
qed

lemma run_pinchFactor_closed:
  "pinchingAtTicks es s \<Longrightarrow>
   pinchFactor (run es s) = 1 - (1 - pinchFactor s) * 0.9 ^ ticks es"
proof (induction es arbitrary: s)
  case Nil
  then show ?case by (simp add: ticks_Nil)
next
  case (Cons e es)
  then have IH: "pinchFactor (run es (step e s)) = 1 - (1 - pinchFactor (step e s)) * 0.9 ^ ticks es"
    by simp
  show ?case
  proof (cases "isTick e")
    case True
    with Cons.prems have "isPinchingRef s" by simp
    with True have "pinchFactor (step e s) = pinchFactor s + (1 - pinchFactor s) * 0.1"
      by (simp add: step_pinchFactor)
    with IH have "pinchFactor (run es (step e s))
        = 1 - (1 - (pinchFactor s + (1 - pinchFactor s) * 0.1)) * 0.9 ^ ticks es"
      by simp
    also have "\<dots> = 1 - (1 - pinchFactor s) * (0.9 * 0.9 ^ ticks es)"
      by (simp add: field_simps)
    finally show ?thesis using True by (simp add: ticks_Cons)
  next
    case False
    then have "pinchFactor (step e s) = pinchFactor s" by (simp add: step_pinchFactor)
    with IH False show ?thesis by (simp add: ticks_Cons)
  qed
qed

lemma memory_step_position:
  "position (memory_step time g)
     = (position g)\<lparr>vy := vy (position g) + sin (time + vx (position g)) * 0.015\<rparr>"
  by (simp add: memory_step_def Let_def)

lemma memory_step_matRefs:
  "matRefs (memory_step time g)
     = (if time - birth g < 1.5 then map (\<lambda>m. (time - birth g) / 1.5) (matRefs g) else matRefs g)"
  by (simp add: memory_step_def Let_def)

lemma memory_step_birth: "birth (memory_step time g) = birth g"
  by (simp add: memory_step_def Let_def)

text \<open>No frame writes an opacity of 1: the ramp \<open>age / 1.5\<close> is written only below 1.\<close>

lemma memory_step_below_one:
  assumes "list_all (\<lambda>m. m < 1) (matRefs g)"
  shows "list_all (\<lambda>m. m < 1) (matRefs (memory_step time g))"
proof (cases "time - birth g < 1.5")
  case True
  then have "(time - birth g) / 1.5 < 1" by simp
  then show ?thesis using True by (simp add: memory_step_matRefs list_all_iff)
next
  case False
  then show ?thesis using assms by (simp add: memory_step_matRefs)
qed

lemma addMemory_Loaded_init:
  "memories (addMemory Loaded (1/4) 0 (1/6) 0 (initScene rnd0))
     = [\<lparr>position = \<lparr>vx = 0, vy = 0, vz = 15\<rparr>, lookAtTarget = \<lparr>vx = 0, vy = 0, vz = 0\<rparr>,
         birth = 0, matRefs = [0, 0]\<rparr>]"
  by (simp add: addMemory_def onLoad_def Let_def initScene_fields)

lemma sin_one_pos: "0 < sin (1::real)"
proof (rule sin_gt_zero)
  show "0 < (1::real)" by simp
  show "(1::real) < pi" using pi_ge_two by simp
qed

lemma step_memories_length:
  "length (memories (step e s)) = (if loadedOk e then Suc (length (memories s)) else length (memories s))"
proof (cases e)
  case (Tick time)
  then show ?thesis by (simp add: animate_memories)
next
  case (Detect r)
  then show ?thesis by (simp add: detectLoop_frame)
next
  case (Load res r1 r2 r3 el)
  then show ?thesis by (cases res) (simp_all add: addMemory_def onLoad_def Let_def)
qed

lemma annulus_radius:
  assumes "0 \<le> (r::real)"
  shows "sqrt ((cos a * r)\<^sup>2 + (sin a * r)\<^sup>2) = r"
proof -
  have "(cos a * r)\<^sup>2 + (sin a * r)\<^sup>2 = ((cos a)\<^sup>2 + (sin a)\<^sup>2) * r\<^sup>2"
    by (simp only: power_mult_distrib distrib_right)
  also have "\<dots> = r\<^sup>2" by simp
  finally show ?thesis using assms by simp
qed

section \<open>The smoothed hand position\<close>

lemma idle_Cons: "idle (e # es) = (\<not> handCall e \<and> idle es)"
  by (simp add: idle_def)

lemma idle_Nil: "idle []"
  by (simp add: idle_def)

lemma idle_frames: "idle (frames n)"
  by (simp add: idle_def frames_def list_all_iff)

lemma ticks_frames: "ticks (frames n) = n"
proof -
  have "filter isTick (frames n) = frames n"
    by (simp add: frames_def filter_id_conv)
  then show ?thesis by (simp add: ticks_def) (simp add: frames_def)
qed

lemma step_idle_targetHandPos: "\<not> handCall e \<Longrightarrow> targetHandPos (step e s) = targetHandPos s"
  by (cases e) (simp_all add: animate_targetHandPos detectLoop_idle addMemory_frame)

lemma step_currentHandPos:
  "currentHandPos (step e s) =
     (if isTick e then lerp (currentHandPos s) (targetHandPos s) 0.12 else currentHandPos s)"
  by (cases e) (simp_all add: animate_currentHandPos detectLoop_frame addMemory_frame)

lemma lerp_zero: "lerp a v 0 = a"
  by (simp add: lerp_def)

lemma lerp_lerp: "lerp (lerp a v (3 / 25)) v (1 - q) = lerp a v (1 - 22 * q / 25)"
  by (simp add: lerp_def field_simps)

lemma run_idle_targetHandPos: "idle es \<Longrightarrow> targetHandPos (run es s) = targetHandPos s"
  by (induction es arbitrary: s) (simp_all add: idle_Cons step_idle_targetHandPos)

lemma run_idle_currentHandPos:
  "idle es \<Longrightarrow>
   currentHandPos (run es s) = lerp (currentHandPos s) (targetHandPos s) (1 - 0.88 ^ ticks es)"
proof (induction es arbitrary: s)
  case Nil
  then show ?case by (simp add: ticks_Nil lerp_zero)
next
  case (Cons e es)
  then have idl: "idle es" and nh: "\<not> handCall e" by (simp_all add: idle_Cons)
  have IH: "currentHandPos (run es (step e s))
      = lerp (currentHandPos (step e s)) (targetHandPos s) (1 - 0.88 ^ ticks es)"
    using Cons.IH [OF idl, of "step e s"] nh by (simp add: step_idle_targetHandPos)
  show ?case
  proof (cases "isTick e")
    case True
    then show ?thesis using IH by (simp add: step_currentHandPos ticks_Cons lerp_lerp)
  next
    case False
    then show ?thesis using IH by (simp add: step_currentHandPos ticks_Cons)
  qed
qed

lemma vdist_lerp: "0 \<le> q \<Longrightarrow> vdist (lerp a v (1 - q)) v = q * vdist a v"
proof -
  assume q: "0 \<le> q"
  have "(vx a + (vx v - vx a) * (1 - q) - vx v)\<^sup>2 + (vy a + (vy v - vy a) * (1 - q) - vy v)\<^sup>2
        + (vz a + (vz v - vz a) * (1 - q) - vz v)\<^sup>2
      = q\<^sup>2 * ((vx a - vx v)\<^sup>2 + (vy a - vy v)\<^sup>2 + (vz a - vz v)\<^sup>2)"
    by (simp add: power2_eq_square algebra_simps)
  then show ?thesis using q by (simp add: vdist_def lerp_def real_sqrt_mult)
qed

lemma run_idle_vdist:
  "idle es \<Longrightarrow>
   vdist (currentHandPos (run es s)) (targetHandPos s)
     = 0.88 ^ ticks es * vdist (currentHandPos s) (targetHandPos s)"
  by (simp add: run_idle_currentHandPos vdist_lerp)

lemma vdist_origin_target: "vdist origin \<lparr>vx = 10, vy = 0, vz = 15\<rparr> = sqrt 325"
  by (simp add: vdist_def origin_def)

lemma sqrt_325_bounds: "18 < sqrt 325 \<and> sqrt 325 < 1803 / 100"
proof
  show "18 < sqrt 325" by (rule real_less_rsqrt) simp
  show "sqrt 325 < 1803 / 100" by (rule real_less_lsqrt) (simp_all add: power2_eq_square)
qed

lemma after_50: "1 / 1000 < (0.88::real) ^ 50 * sqrt 325"
proof -
  have "(1::real) / 1000 < 0.88 ^ 50 * 18" by (simp add: power_divide)
  also have "\<dots> < 0.88 ^ 50 * sqrt 325"
    using sqrt_325_bounds by (intro mult_strict_left_mono) simp_all
  finally show ?thesis .
qed

lemma from_77: "77 \<le> n \<Longrightarrow> (0.88::real) ^ n * sqrt 325 < 1 / 1000"
proof -
  assume n: "77 \<le> n"
  have "(0.88::real) ^ n \<le> 0.88 ^ 77" using n by (intro power_decreasing) simp_all
  then have "(0.88::real) ^ n * sqrt 325 \<le> 0.88 ^ 77 * sqrt 325"
    by (intro mult_right_mono) simp_all
  also have "\<dots> < 0.88 ^ 77 * (1803 / 100)"
    using sqrt_325_bounds by (intro mult_strict_left_mono) simp_all
  also have "\<dots> < 1 / 1000" by (simp add: power_divide)
  finally show ?thesis .
qed

lemma upto_76: "n \<le> 76 \<Longrightarrow> 1 / 1000 < (0.88::real) ^ n * sqrt 325"
proof -
  assume n: "n \<le> 76"
  have "(1::real) / 1000 < 0.88 ^ 76 * 18" by (simp add: power_divide)
  also have "\<dots> < 0.88 ^ 76 * sqrt 325"
    using sqrt_325_bounds by (intro mult_strict_left_mono) simp_all
  also have "\<dots> \<le> 0.88 ^ n * sqrt 325"
  proof (intro mult_right_mono)
    show "(0.88::real) ^ 76 \<le> 0.88 ^ n" using n by (intro power_decreasing) simp_all
  qed simp
  finally show ?thesis .
qed

lemma run_snoc: "run (es @ [e]) s = step e (run es s)"
  by (induction es arbitrary: s) simp_all

lemma animate_vdist:
  "vdist (currentHandPos (animate time s)) (targetHandPos s)
     = 0.88 * vdist (currentHandPos s) (targetHandPos s)"
proof -
  have e: "(0.12::real) = 1 - 0.88" by simp
  show ?thesis
    unfolding animate_currentHandPos by (subst e, rule vdist_lerp) simp
qed

section \<open>The trail buffer\<close>

lemma trail_shift_length: "length (trail_shift i t) = length t"
proof (induction i arbitrary: t)
  case 0
  show ?case by (subst trail_shift.simps) simp
next
  case (Suc i)
  show ?case by (subst trail_shift.simps) (simp add: Let_def Suc.IH)
qed

lemma trail_shift_nth:
  "i * 3 + 2 < length t \<Longrightarrow> j < length t \<Longrightarrow>
   trail_shift i t ! j = (if 3 \<le> j \<and> j < i * 3 + 3 then t ! (j - 3) else t ! j)"
proof (induction i arbitrary: t)
  case 0
  show ?case by (subst trail_shift.simps) simp
next
  case (Suc i)
  define t3 where "t3 = t[Suc i * 3 := t ! (i * 3), Suc i * 3 + 1 := t ! (i * 3 + 1),
      Suc i * 3 + 2 := t ! (i * 3 + 2)]"
  have unf: "trail_shift (Suc i) t = trail_shift i t3"
    by (subst trail_shift.simps) (simp add: Let_def t3_def)
  have len: "length t3 = length t" by (simp add: t3_def)
  have IH: "trail_shift i t3 ! j = (if 3 \<le> j \<and> j < i * 3 + 3 then t3 ! (j - 3) else t3 ! j)"
    using Suc.IH [of t3] Suc.prems by (simp add: len)
  have low: "t3 ! k = t ! k" if "k < i * 3 + 3" for k
    using that by (simp add: t3_def)
  have high: "t3 ! k = t ! k" if "i * 3 + 5 < k" for k
    using that by (simp add: t3_def)
  have mid: "t3 ! k = t ! (k - 3)" if "i * 3 + 3 \<le> k" "k \<le> i * 3 + 5" for k
  proof -
    from that have "k = i * 3 + 3 \<or> k = i * 3 + 4 \<or> k = i * 3 + 5" by arith
    then show ?thesis using Suc.prems by (auto simp add: t3_def nth_list_update)
  qed
  show ?case
  proof (cases "3 \<le> j \<and> j < i * 3 + 3")
    case True
    then have "j - 3 < i * 3 + 3" by arith
    then have "t3 ! (j - 3) = t ! (j - 3)" by (rule low)
    with True have "trail_shift i t3 ! j = t ! (j - 3)"
      using IH by simp
    then show ?thesis using True unf by simp
  next
    case False
    then have r: "trail_shift i t3 ! j = t3 ! j" using IH by auto
    show ?thesis
    proof (cases "i * 3 + 3 \<le> j \<and> j \<le> i * 3 + 5")
      case True
      then show ?thesis using r mid [of j] unf by simp
    next
      case False
      with \<open>\<not> (3 \<le> j \<and> j < i * 3 + 3)\<close> have "j < 3 \<or> i * 3 + 5 < j" by arith
      then have "t3 ! j = t ! j" using low [of j] high [of j] by auto
      then show ?thesis using r unf \<open>j < 3 \<or> i * 3 + 5 < j\<close> by auto
    qed
  qed
qed

lemma trail_step_length: "length (trail_step cur t) = length t"
  by (simp add: trail_step_def Let_def trail_shift_length)

lemma trail_step_slot0:
  "length t = tCount * 3 \<Longrightarrow> slot (trail_step cur t) 0 = cur"
  by (simp add: trail_step_def Let_def slot_def trail_shift_length tCount_def nth_list_update)

lemma trail_step_slot:
  assumes "length t = tCount * 3" and "0 < i" and "i < tCount"
  shows "slot (trail_step cur t) i = slot t (i - 1)"
proof -
  have n: "(tCount - 1) * 3 + 2 < length t" using assms by (simp add: tCount_def)
  have k: "trail_step cur t ! (i * 3 + d) = t ! ((i - 1) * 3 + d)" if "d < 3" for d
  proof -
    have j: "i * 3 + d < length t" using assms that by (simp add: tCount_def)
    have "trail_step cur t ! (i * 3 + d) = trail_shift (tCount - 1) t ! (i * 3 + d)"
      using assms by (simp add: trail_step_def Let_def)
    also have "\<dots> = t ! (i * 3 + d - 3)"
      using trail_shift_nth [OF n j] assms that by (simp add: tCount_def)
    also have "i * 3 + d - 3 = (i - 1) * 3 + d" using assms by (simp add: algebra_simps)
    finally show ?thesis .
  qed
  show ?thesis
    using k [of 0] k [of 1] k [of 2] by (simp add: slot_def)
qed

lemma feed_snoc: "feed (ps @ [p]) t = trail_step p (feed ps t)"
  by (induction ps arbitrary: t) simp_all

lemma feed_length: "length (feed ps t) = length t"
  by (induction ps arbitrary: t) (simp_all add: trail_step_length)

lemma feed_slot:
  "length t = tCount * 3 \<Longrightarrow> k < length ps \<Longrightarrow> k < tCount \<Longrightarrow>
   slot (feed ps t) k = rev ps ! k"
proof (induction ps arbitrary: k rule: rev_induct)
  case Nil
  then show ?case by simp
next
  case (snoc p ps)
  have len: "length (feed ps t) = tCount * 3" using snoc.prems by (simp add: feed_length)
  show ?case
  proof (cases k)
    case 0
    then show ?thesis by (simp add: feed_snoc trail_step_slot0 [OF len])
  next
    case (Suc k')
    then have "slot (feed (ps @ [p]) t) k = slot (feed ps t) k'"
      using snoc.prems trail_step_slot [OF len, of k p] by (simp add: feed_snoc)
    also have "\<dots> = rev ps ! k'"
      using snoc.prems Suc by (intro snoc.IH) simp_all
    finally show ?thesis using Suc by simp
  qed
qed

lemma trail_step_zero:
  "trail_step origin (replicate (tCount * 3) 0) = replicate (tCount * 3) 0"
proof (rule nth_equalityI)
  show "length (trail_step origin (replicate (tCount * 3) 0)) = length (replicate (tCount * 3) (0::real))"
    by (simp add: trail_step_length)
next
  fix j assume "j < length (trail_step origin (replicate (tCount * 3) 0))"
  then have j: "j < tCount * 3" by (simp add: trail_step_length)
  have n: "(tCount - 1) * 3 + 2 < length (replicate (tCount * 3) (0::real))"
    by (simp add: tCount_def)
  have "trail_shift (tCount - 1) (replicate (tCount * 3) 0) ! j = 0"
    using trail_shift_nth [OF n, of j] j by simp
  then show "trail_step origin (replicate (tCount * 3) 0) ! j = replicate (tCount * 3) 0 ! j"
    using j by (simp add: trail_step_def Let_def origin_def nth_list_update trail_shift_length)
qed

lemma step_tArray:
  "tArray (step e s) = (if isTick e then trail_step (currentHandPos (step e s)) (tArray s) else tArray s)"
  by (cases e) (simp_all add: animate_tArray detectLoop_frame addMemory_frame)

lemma run_tArray_length: "length (tArray (run es s)) = length (tArray s)"
  by (induction es arbitrary: s) (simp_all add: step_tArray trail_step_length)

lemma run_idle_rest:
  "idle es \<Longrightarrow> targetHandPos s = origin \<Longrightarrow> currentHandPos s = origin \<Longrightarrow>
   tArray s = replicate (tCount * 3) 0 \<Longrightarrow>
   currentHandPos (run es s) = origin \<and> tArray (run es s) = replicate (tCount * 3) 0"
proof (induction es arbitrary: s)
  case Nil
  then show ?case by simp
next
  case (Cons e es)
  then have idl: "idle es" and nh: "\<not> handCall e" by (simp_all add: idle_Cons)
  have t: "targetHandPos (step e s) = origin"
    using nh Cons.prems by (simp add: step_idle_targetHandPos)
  have c: "currentHandPos (step e s) = origin"
    using Cons.prems by (simp add: step_currentHandPos lerp_def origin_def)
  have a: "tArray (step e s) = replicate (tCount * 3) 0"
    using Cons.prems c by (simp add: step_tArray trail_step_zero)
  show ?case using Cons.IH [OF idl t c a] by simp
qed

lemma slots_zero: "map (slot (replicate (tCount * 3) 0)) [0..<tCount] = replicate tCount origin"
  by (rule nth_equalityI) (simp_all add: slot_def origin_def)

section \<open>The vortex particles\<close>

lemma vortex_init_length:
  "length (fst (vortex_init rnd i pos meta)) = length pos
   \<and> length (snd (vortex_init rnd i pos meta)) = length meta"
proof (induction rnd i pos meta rule: vortex_init.induct)
  case (1 rnd i pos meta)
  show ?case
  proof (cases "i < vCount")
    case True
    then show ?thesis
      using "1.IH" by (subst (1 2) vortex_init.simps) (simp add: Let_def)
  next
    case False
    then show ?thesis by (subst (1 2) vortex_init.simps) simp
  qed
qed

lemma initScene_vortex_length:
  "length (vPos (initScene rnd)) = vCount * 3 \<and> length (vMeta (initScene rnd)) = vCount * 2"
  by (simp add: initScene_def Let_def vortex_init_length)

lemma vortex_body_length: "length (vortex_body time pf meta i pos) = length pos"
  by (simp add: vortex_body_def Let_def)

lemma vortex_body_nth:
  assumes "i * 3 + 2 < length pos" and "k < length pos"
  shows "vortex_body time pf meta i pos ! k =
     (if k = i * 3 then
        cos (real i / real vCount * pi * 2 + time * 0.2 * meta ! (i * 2 + 1))
          * (meta ! (i * 2) * (1 + pf * 0.3))
      else if k = i * 3 + 2 then
        sin (real i / real vCount * pi * 2 + time * 0.2 * meta ! (i * 2 + 1))
          * (meta ! (i * 2) * (1 + pf * 0.3))
      else if k = i * 3 + 1 then pos ! k + cos (time + real i) * 0.01
      else pos ! k)"
  using assms by (simp add: vortex_body_def Let_def nth_list_update)

lemma vortex_loop_length: "length (vortex_loop time pf meta i pos) = length pos"
proof (induction time pf meta i pos rule: vortex_loop.induct)
  case (1 time pf meta i pos)
  show ?case
  proof (cases "i < vCount")
    case True
    then show ?thesis
      using "1.IH" by (subst vortex_loop.simps) (simp add: vortex_body_length)
  next
    case False
    then show ?thesis by (subst vortex_loop.simps) simp
  qed
qed

lemma vortex_loop_nth:
  assumes "length pos = vCount * 3" and "j < vCount" and "d < 3"
  shows "vortex_loop time pf meta i pos ! (j * 3 + d) =
     (if i \<le> j then vortex_body time pf meta j pos ! (j * 3 + d) else pos ! (j * 3 + d))"
  using assms
proof (induction time pf meta i pos rule: vortex_loop.induct)
  case (1 time pf meta i pos)
  have k: "j * 3 + d < length pos" using "1.prems" by simp
  have j2: "j * 3 + 2 < length pos" using "1.prems" by simp
  show ?case
  proof (cases "i < vCount")
    case True
    then have i2: "i * 3 + 2 < length pos" using "1.prems" by simp
    let ?pos' = "vortex_body time pf meta i pos"
    have len: "length ?pos' = vCount * 3" using "1.prems" by (simp add: vortex_body_length)
    have unf: "vortex_loop time pf meta i pos = vortex_loop time pf meta (Suc i) ?pos'"
      using True by (subst vortex_loop.simps) simp
    have IH: "vortex_loop time pf meta (Suc i) ?pos' ! (j * 3 + d) =
        (if Suc i \<le> j then vortex_body time pf meta j ?pos' ! (j * 3 + d) else ?pos' ! (j * 3 + d))"
      using "1.IH" [OF True len "1.prems"(2,3)] .
    show ?thesis
    proof (cases "i = j")
      case True
      then show ?thesis using unf IH by simp
    next
      case False
      have other: "?pos' ! (j * 3 + d') = pos ! (j * 3 + d')" if "d' < 3" for d'
      proof -
        have "j * 3 + d' < length pos" using "1.prems" that by simp
        moreover have "j * 3 + d' \<noteq> i * 3 \<and> j * 3 + d' \<noteq> i * 3 + 2 \<and> j * 3 + d' \<noteq> i * 3 + 1"
          using False that by arith
        ultimately show ?thesis using vortex_body_nth [OF i2, of "j * 3 + d'" time pf meta] by simp
      qed
      show ?thesis
      proof (cases "i < j")
        case True
        have "vortex_body time pf meta j ?pos' ! (j * 3 + d) = vortex_body time pf meta j pos ! (j * 3 + d)"
        proof -
          have a: "j * 3 + 2 < length ?pos'" using j2 by (simp add: vortex_body_length)
          have b: "j * 3 + d < length ?pos'" using k by (simp add: vortex_body_length)
          have "d = 0 \<or> d = 1 \<or> d = 2" using "1.prems" by arith
          then show ?thesis
            using vortex_body_nth [OF a b, of time pf meta] vortex_body_nth [OF j2 k, of time pf meta]
              other [of 1] by auto
        qed
        then show ?thesis using unf IH True by simp
      next
        case False
        with \<open>i \<noteq> j\<close> have "j < i" by simp
        then show ?thesis using unf IH other [OF "1.prems"(3)] by simp
      qed
    qed
  next
    case False
    then have "\<not> i \<le> j" using "1.prems" by simp
    moreover have "vortex_loop time pf meta i pos = pos"
      using False by (subst vortex_loop.simps) simp
    ultimately show ?thesis by simp
  qed
qed

lemma step_vPos_length: "length (vPos (step e s)) = length (vPos s)"
  by (cases e) (simp_all add: animate_vPos vortex_loop_length detectLoop_frame addMemory_frame)

lemma step_vMeta: "vMeta (step e s) = vMeta s"
  by (cases e) (simp_all add: animate_vMeta detectLoop_frame addMemory_frame)

lemma run_vortex_frame:
  "length (vPos (run es s)) = length (vPos s) \<and> vMeta (run es s) = vMeta s"
  by (induction es arbitrary: s) (simp_all add: step_vPos_length step_vMeta)

section \<open>The claims\<close>

subsection \<open>C1: the fade-in of a memory artifact\<close>

text \<open>
  C1 says that the opacity of an artifact is \<open>age / 1.5\<close> while \<open>age < 1.5\<close> and exactly 1
  from \<open>age = 1.5\<close> on. The frame writes the opacity only under \<open>age < 1.5\<close> and never
  writes 1: the opacity stays at the last value written. An artifact born at time 0 has
  opacity 0; after the frame at time 1 its two materials have opacity 2/3; after the
  frame at time 2 (age 2) they still have opacity 2/3 and not 1; and when the first
  frame after the birth comes at age 2, the opacity stays 0.
\<close>
theorem fade_never_completes:
  "map birth (memories (addMemory Loaded (1/4) 0 (1/6) 0 (initScene rnd0))) = [0]
   \<and> map matRefs (memories (addMemory Loaded (1/4) 0 (1/6) 0 (initScene rnd0))) = [[0, 0]]
   \<and> map matRefs (memories (animate 1 (addMemory Loaded (1/4) 0 (1/6) 0 (initScene rnd0))))
       = [[2 / 3, 2 / 3]]
   \<and> map matRefs (memories (animate 2 (animate 1
         (addMemory Loaded (1/4) 0 (1/6) 0 (initScene rnd0))))) = [[2 / 3, 2 / 3]]
   \<and> map matRefs (memories (animate 2 (addMemory Loaded (1/4) 0 (1/6) 0 (initScene rnd0))))
       = [[0, 0]]"
  by (simp add: animate_memories addMemory_Loaded_init memory_step_def Let_def)

subsection \<open>C2: the ambient bob\<close>

text \<open>
  C2 says that the bob is applied only once \<open>age \<ge> 1.5\<close> and that the position of a
  fading artifact is left unchanged. The frame applies the bob outside the age test:
  an artifact born at time 0 at position (0, 0, 15) is moved to height
  \<open>sin 1 * 0.015\<close>, which is not 0, by the frame at time 1 (age 1).
\<close>
theorem bob_while_fading_counterexample:
  "map birth (memories (addMemory Loaded (1/4) 0 (1/6) 0 (initScene rnd0))) = [0]
   \<and> map position (memories (addMemory Loaded (1/4) 0 (1/6) 0 (initScene rnd0)))
       = [\<lparr>vx = 0, vy = 0, vz = 15\<rparr>]
   \<and> map position (memories (animate 1 (addMemory Loaded (1/4) 0 (1/6) 0 (initScene rnd0))))
       = [\<lparr>vx = 0, vy = sin 1 * 0.015, vz = 15\<rparr>]
   \<and> sin 1 * 0.015 \<noteq> (0::real)"
  using sin_one_pos
  by (simp add: animate_memories addMemory_Loaded_init memory_step_def Let_def)

text \<open>
  C2, amended. On every frame, whatever the artifact's age, the bob adds
  \<open>sin (time + position.x) * 0.015\<close> to \<open>position.y\<close> of every artifact and leaves
  \<open>position.x\<close> and \<open>position.z\<close> as they are; only the write of the opacity
  \<open>age / 1.5\<close> is confined to \<open>age < 1.5\<close>.
\<close>
theorem bob_on_every_tick:
  "map position (memories (animate time s))
     = map (\<lambda>g. \<lparr>vx = vx (position g),
                  vy = vy (position g) + sin (time + vx (position g)) * 0.015,
                  vz = vz (position g)\<rparr>) (memories s)
   \<and> map matRefs (memories (animate time s))
     = map (\<lambda>g. if time - birth g < 1.5 then map (\<lambda>m. (time - birth g) / 1.5) (matRefs g)
                else matRefs g) (memories s)"
  by (simp add: animate_memories memory_step_position memory_step_matRefs)

subsection \<open>C3: the pinch factor\<close>

text \<open>
  C3. From a pinch factor in [0, 1], the pinch factor is in [0, 1] after every session,
  whatever the callbacks and the pinch flags they latch; a frame moves it by a tenth of
  its distance to the target (1 when the flag is set, 0 otherwise); and when the flag is
  set at every frame of the session, the pinch factor after the session is
  \<open>1 - (1 - pinchFactor\<^sub>0) * 0.9 ^ n\<close>, with \<open>n\<close> the number of frames.
\<close>
theorem pinchFactor_range_and_closed_form:
  assumes "0 \<le> pinchFactor s" and "pinchFactor s \<le> 1"
  shows "0 \<le> pinchFactor (run es s) \<and> pinchFactor (run es s) \<le> 1
    \<and> pinchFactor (animate time s)
        = pinchFactor s + ((if isPinchingRef s then 1 else 0) - pinchFactor s) * 0.1
    \<and> (pinchingAtTicks es s \<longrightarrow>
         pinchFactor (run es s) = 1 - (1 - pinchFactor s) * 0.9 ^ ticks es)"
  using run_pinchFactor_bounds [OF assms] run_pinchFactor_closed
  by (simp add: animate_pinchFactor)

theorem pinchFactor_range_and_closed_form_witness:
  "pinchFactor (run [Tick 1, Tick 2] (updateHandInteraction (1/2) (1/2) True (initScene rnd0)))
     = 19 / 100"
  using pinchFactor_range_and_closed_form
    [of "updateHandInteraction (1/2) (1/2) True (initScene rnd0)" "[Tick 1, Tick 2]" 1]
  by (simp add: updateHandInteraction_frame initScene_fields ticks_def
      updateHandInteraction_latch animate_isPinchingRef power2_eq_square)

subsection \<open>C4: the hand follows the target\<close>

text \<open>
  C4 says that from (0, 0, 0), with the target fixed at (10, 0, 15), the hand position is
  within 0.001 of the target within about 50 ticks. After the call
  \<open>updateHandInteraction (2/3) (1/2) False\<close> on the mounted scene the target is
  (10, 0, 15) and the hand position (0, 0, 0); after 50 frames the distance to the target
  is \<open>0.88 ^ 50 * sqrt 325\<close>, about 0.03, still above 0.001.
\<close>
theorem hand_not_within_50:
  "targetHandPos (updateHandInteraction (2/3) (1/2) False (initScene rnd0))
      = \<lparr>vx = 10, vy = 0, vz = 15\<rparr>
   \<and> currentHandPos (updateHandInteraction (2/3) (1/2) False (initScene rnd0))
      = \<lparr>vx = 0, vy = 0, vz = 0\<rparr>
   \<and> ticks (frames 50) = 50
   \<and> 1 / 1000 < vdist (currentHandPos (run (frames 50)
              (updateHandInteraction (2/3) (1/2) False (initScene rnd0))))
            \<lparr>vx = 10, vy = 0, vz = 15\<rparr>"
proof -
  have t: "targetHandPos (updateHandInteraction (2/3) (1/2) False (initScene rnd0))
      = \<lparr>vx = 10, vy = 0, vz = 15\<rparr>"
    by (simp add: updateHandInteraction_latch)
  have c: "currentHandPos (updateHandInteraction (2/3) (1/2) False (initScene rnd0)) = origin"
    by (simp add: updateHandInteraction_frame initScene_fields)
  have "vdist (currentHandPos (run (frames 50)
              (updateHandInteraction (2/3) (1/2) False (initScene rnd0))))
            \<lparr>vx = 10, vy = 0, vz = 15\<rparr> = 0.88 ^ 50 * sqrt 325"
    using run_idle_vdist [OF idle_frames, of 50 "updateHandInteraction (2/3) (1/2) False (initScene rnd0)"]
    by (simp only: t c vdist_origin_target ticks_frames)
  then show ?thesis using after_50 t c by (simp add: ticks_frames origin_def)
qed

text \<open>
  C4, amended. Every frame moves the hand position 12 percent of the way to the
  target (\<open>lerp\<close> with factor 0.12), so its distance to the target is multiplied by 0.88.
  From (0, 0, 0) with the target (10, 0, 15), one frame gives exactly (1.2, 0, 1.8), and in
  a session without hand update the position is within 0.001 of the target after 77
  frames and from then on, and not before: up to 76 frames the distance is above 0.001.
\<close>
theorem hand_follow_lerp:
  assumes "currentHandPos s = origin" and "targetHandPos s = \<lparr>vx = 10, vy = 0, vz = 15\<rparr>"
    and "idle es"
  shows "currentHandPos (animate time s) = \<lparr>vx = 1.2, vy = 0, vz = 1.8\<rparr>
    \<and> currentHandPos (animate time s') = lerp (currentHandPos s') (targetHandPos s') 0.12
    \<and> vdist (currentHandPos (animate time s')) (targetHandPos s')
        = 0.88 * vdist (currentHandPos s') (targetHandPos s')
    \<and> (77 \<le> ticks es \<longrightarrow>
          vdist (currentHandPos (run es s)) \<lparr>vx = 10, vy = 0, vz = 15\<rparr> < 1 / 1000)
    \<and> (ticks es \<le> 76 \<longrightarrow>
          1 / 1000 < vdist (currentHandPos (run es s)) \<lparr>vx = 10, vy = 0, vz = 15\<rparr>)"
proof -
  have one: "currentHandPos (animate time s) = \<lparr>vx = 1.2, vy = 0, vz = 1.8\<rparr>"
    using assms(1,2) by (simp add: animate_currentHandPos lerp_def origin_def)
  have d: "vdist (currentHandPos (run es s)) \<lparr>vx = 10, vy = 0, vz = 15\<rparr>
      = 0.88 ^ ticks es * sqrt 325"
    using run_idle_vdist [OF assms(3), of s]
    by (simp only: assms(1,2) vdist_origin_target)
  have late: "77 \<le> ticks es \<longrightarrow>
      vdist (currentHandPos (run es s)) \<lparr>vx = 10, vy = 0, vz = 15\<rparr> < 1 / 1000"
    unfolding d using from_77 [of "ticks es"] by blast
  have early: "ticks es \<le> 76 \<longrightarrow>
      1 / 1000 < vdist (currentHandPos (run es s)) \<lparr>vx = 10, vy = 0, vz = 15\<rparr>"
    unfolding d using upto_76 [of "ticks es"] by blast
  show ?thesis
    using one animate_currentHandPos [of time s'] animate_vdist [of time s'] late early
    by blast
qed

theorem hand_follow_lerp_witness:
  "currentHandPos (animate (1 / 60) (updateHandInteraction (2/3) (1/2) False (initScene rnd0)))
      = \<lparr>vx = 1.2, vy = 0, vz = 1.8\<rparr>
   \<and> vdist (currentHandPos (run (frames 77)
          (updateHandInteraction (2/3) (1/2) False (initScene rnd0))))
        \<lparr>vx = 10, vy = 0, vz = 15\<rparr> < 1 / 1000
   \<and> 1 / 1000 < vdist (currentHandPos (run (frames 76)
          (updateHandInteraction (2/3) (1/2) False (initScene rnd0))))
        \<lparr>vx = 10, vy = 0, vz = 15\<rparr>"
  using hand_follow_lerp [of "updateHandInteraction (2/3) (1/2) False (initScene rnd0)"
      "frames 77" "1 / 60"]
    hand_follow_lerp [of "updateHandInteraction (2/3) (1/2) False (initScene rnd0)"
      "frames 76" "1 / 60"]
  by (simp add: updateHandInteraction_latch updateHandInteraction_frame initScene_fields
      idle_frames ticks_frames)

subsection \<open>C5: the trail buffer\<close>

text \<open>
  C5. The trail array has 180 numbers, 60 slots of three, in every state a session
  reaches from the mounted scene. A frame keeps the length, writes the hand position
  (after its move) into slot 0 and gives every slot \<open>i\<close> from 1 to 59 the former contents
  of slot \<open>i - 1\<close>. Feeding 60 positions in order to the trail step leaves the last of
  them in slot 0 and the first in slot 59.
\<close>
theorem trail_shift_register:
  assumes "length (tArray s) = 180" and "0 < i" and "i < 60"
    and "length t = 180" and "length ps = 60"
  shows "length (tArray (run es (initScene rnd))) = 180
    \<and> length (tArray (animate time s)) = 180
    \<and> slot (tArray (animate time s)) 0 = currentHandPos (animate time s)
    \<and> slot (tArray (animate time s)) i = slot (tArray s) (i - 1)
    \<and> length (feed ps t) = 180
    \<and> slot (feed ps t) 0 = ps ! 59
    \<and> slot (feed ps t) 59 = ps ! 0"
proof -
  have c1: "length (tArray (run es (initScene rnd))) = 180"
    by (simp add: run_tArray_length initScene_fields tCount_def)
  have l: "length (tArray s) = tCount * 3" using assms by (simp add: tCount_def)
  have c2: "length (tArray (animate time s)) = 180"
    using assms by (simp add: animate_tArray trail_step_length)
  have c3: "slot (tArray (animate time s)) 0 = currentHandPos (animate time s)"
    using l by (simp add: animate_tArray trail_step_slot0)
  have c4: "slot (tArray (animate time s)) i = slot (tArray s) (i - 1)"
    using l assms by (simp add: animate_tArray trail_step_slot tCount_def)
  have lt: "length t = tCount * 3" using assms by (simp add: tCount_def)
  have c5: "length (feed ps t) = 180" using assms by (simp add: feed_length)
  have ne: "ps \<noteq> []" using assms by auto
  have "slot (feed ps t) 0 = rev ps ! 0"
    using assms by (intro feed_slot [OF lt]) (simp_all add: tCount_def)
  also have "\<dots> = ps ! 59" using assms by (simp add: rev_nth)
  finally have c6: "slot (feed ps t) 0 = ps ! 59" .
  have "slot (feed ps t) 59 = rev ps ! 59"
    using assms by (intro feed_slot [OF lt]) (simp_all add: tCount_def)
  also have "\<dots> = ps ! 0" using assms by (simp add: rev_nth)
  finally have c7: "slot (feed ps t) 59 = ps ! 0" .
  show ?thesis using c1 c2 c3 c4 c5 c6 c7 by blast
qed

theorem trail_shift_register_witness:
  "slot (feed positions60 (tArray (initScene rnd0))) 0 = \<lparr>vx = 59, vy = 0, vz = 0\<rparr>
   \<and> slot (feed positions60 (tArray (initScene rnd0))) 59 = \<lparr>vx = 0, vy = 0, vz = 0\<rparr>
   \<and> slot (tArray (animate 1 (initScene rnd0))) 1 = slot (tArray (initScene rnd0)) 0"
  using trail_shift_register [of "initScene rnd0" 1 "tArray (initScene rnd0)" positions60 "[]" rnd0 1]
  by (simp add: initScene_fields tCount_def positions60_def)

subsection \<open>C6: the hand update\<close>

text \<open>
  C6. Every call \<open>updateHandInteraction x y p\<close> sets the target position to
  \<open>(x * 60 - 30, (0.5 - y) * 45, 15)\<close>, eases the two rotations of the main group by the
  factor 0.04 toward \<open>(y - 0.5) * 0.25\<close> and \<open>(x - 0.5) * 0.5\<close>, and latches the
  pinch flag; a callback in which the function is not called (a render frame, a
  detection pass that finds no hand, the end of an image load) leaves both rotations
  as they are.
\<close>
theorem updateHandInteraction_target_and_rotation:
  "targetHandPos (updateHandInteraction x y p s) = \<lparr>vx = x * 60 - 30, vy = (0.5 - y) * 45, vz = 15\<rparr>
   \<and> rotation_x (updateHandInteraction x y p s)
       = rotation_x s + ((y - 0.5) * 0.25 - rotation_x s) * 0.04
   \<and> rotation_y (updateHandInteraction x y p s)
       = rotation_y s + ((x - 0.5) * 0.5 - rotation_y s) * 0.04
   \<and> isPinchingRef (updateHandInteraction x y p s) = p
   \<and> (\<not> handCall e \<longrightarrow>
        rotation_x (step e s) = rotation_x s \<and> rotation_y (step e s) = rotation_y s)"
proof -
  have idle: "rotation_x (step e s) = rotation_x s \<and> rotation_y (step e s) = rotation_y s"
    if "\<not> handCall e"
  proof (cases e)
    case (Tick time)
    then show ?thesis by (simp add: animate_rotation)
  next
    case (Detect r)
    with that show ?thesis by (simp add: detectLoop_idle)
  next
    case (Load res r1 r2 r3 el)
    then show ?thesis by (simp add: addMemory_frame)
  qed
  have tgt: "targetHandPos (updateHandInteraction x y p s)
      = \<lparr>vx = x * 60 - 30, vy = (0.5 - y) * 45, vz = 15\<rparr>"
    by (simp add: updateHandInteraction_def Let_def algebra_simps)
  have rot: "rotation_x (updateHandInteraction x y p s)
       = rotation_x s + ((y - 0.5) * 0.25 - rotation_x s) * 0.04
     \<and> rotation_y (updateHandInteraction x y p s)
       = rotation_y s + ((x - 0.5) * 0.5 - rotation_y s) * 0.04
     \<and> isPinchingRef (updateHandInteraction x y p s) = p"
    by (simp add: updateHandInteraction_def Let_def)
  show ?thesis
    using idle tgt rot by blast
qed

theorem updateHandInteraction_target_and_rotation_witness:
  "rotation_x (step (Tick 1) (updateHandInteraction 1 1 True (initScene (\<lambda>k. 0)))) = 1/200
   \<and> rotation_y (step (Tick 1) (updateHandInteraction 1 1 True (initScene (\<lambda>k. 0)))) = 1/100"
  using updateHandInteraction_target_and_rotation
     [of 1 1 True "initScene (\<lambda>k. 0)" "Tick 1"]
     updateHandInteraction_target_and_rotation
     [of 1 1 True "updateHandInteraction 1 1 True (initScene (\<lambda>k. 0))" "Tick 1"]
  by (simp add: initScene_def Let_def)

subsection \<open>C7: the vortex particle field\<close>

text \<open>
  C7. In every state a session reaches from the mounted scene, the position array has
  the coordinates of 4000 particles and the metadata array their base radius and
  angular speed, as written at mounting. A frame at elapsed time \<open>time\<close> gives particle
  \<open>i\<close> the angle \<open>i / 4000 * 2 pi + time * 0.2 * speed\<close> and the radius
  \<open>base radius * (1 + pinchFactor * 0.3)\<close>, with the pinch factor as the same frame has
  just smoothed it; its x and z are the cosine and the sine of the angle times the
  radius; its y is the former y plus \<open>cos (time + i) * 0.01\<close>; the opacity of the field
  is \<open>0.4 + pinchFactor * 0.5\<close>; and the frame changes neither the number of
  particles nor their metadata.
\<close>
theorem vortex_particles:
  assumes "i < 4000"
  shows "vPos (animate time (run es (initScene rnd))) ! (i * 3)
      = cos (real i / 4000 * pi * 2
             + time * 0.2 * vMeta (run es (initScene rnd)) ! (i * 2 + 1))
        * (vMeta (run es (initScene rnd)) ! (i * 2)
            * (1 + pinchFactor (animate time (run es (initScene rnd))) * 0.3))
    \<and> vPos (animate time (run es (initScene rnd))) ! (i * 3 + 2)
      = sin (real i / 4000 * pi * 2
             + time * 0.2 * vMeta (run es (initScene rnd)) ! (i * 2 + 1))
        * (vMeta (run es (initScene rnd)) ! (i * 2)
            * (1 + pinchFactor (animate time (run es (initScene rnd))) * 0.3))
    \<and> vPos (animate time (run es (initScene rnd))) ! (i * 3 + 1)
      = vPos (run es (initScene rnd)) ! (i * 3 + 1) + cos (time + real i) * 0.01
    \<and> vMat_opacity (animate time (run es (initScene rnd)))
      = 0.4 + pinchFactor (animate time (run es (initScene rnd))) * 0.5
    \<and> length (vPos (run es (initScene rnd))) = 4000 * 3
    \<and> length (vPos (animate time (run es (initScene rnd)))) = 4000 * 3
    \<and> length (vMeta (run es (initScene rnd))) = 4000 * 2
    \<and> vMeta (run es (initScene rnd)) = vMeta (initScene rnd)
    \<and> vMeta (animate time (run es (initScene rnd))) = vMeta (initScene rnd)"
proof -
  let ?s = "run es (initScene rnd)"
  let ?pf = "pinchFactor (animate time ?s)"
  have i: "i < vCount" using assms by (simp add: vCount_def)
  have len: "length (vPos ?s) = vCount * 3"
    by (simp add: run_vortex_frame initScene_vortex_length)
  have meta: "vMeta ?s = vMeta (initScene rnd)"
    by (simp add: run_vortex_frame)
  have mlen: "length (vMeta ?s) = vCount * 2"
    by (simp add: meta initScene_vortex_length)
  have i2: "i * 3 + 2 < length (vPos ?s)" using i len by simp
  have nth: "vPos (animate time ?s) ! (i * 3 + d)
      = vortex_body time ?pf (vMeta ?s) i (vPos ?s) ! (i * 3 + d)" if "d < 3" for d
    using vortex_loop_nth [OF len i that, of time ?pf "vMeta ?s" 0]
    by (simp add: animate_vPos)
  have x: "vPos (animate time ?s) ! (i * 3)
      = cos (real i / real vCount * pi * 2 + time * 0.2 * vMeta ?s ! (i * 2 + 1))
        * (vMeta ?s ! (i * 2) * (1 + ?pf * 0.3))"
    using nth [of 0] vortex_body_nth [OF i2, of "i * 3" time ?pf "vMeta ?s"] i2 by simp
  have z: "vPos (animate time ?s) ! (i * 3 + 2)
      = sin (real i / real vCount * pi * 2 + time * 0.2 * vMeta ?s ! (i * 2 + 1))
        * (vMeta ?s ! (i * 2) * (1 + ?pf * 0.3))"
    using nth [of 2] vortex_body_nth [OF i2 i2, of time ?pf "vMeta ?s"] by simp
  have y: "vPos (animate time ?s) ! (i * 3 + 1)
      = vPos ?s ! (i * 3 + 1) + cos (time + real i) * 0.01"
    using nth [of 1] vortex_body_nth [OF i2, of "i * 3 + 1" time ?pf "vMeta ?s"] i2 by simp
  have op: "vMat_opacity (animate time ?s) = 0.4 + ?pf * 0.5"
    by (rule animate_vMat_opacity)
  have len': "length (vPos (animate time ?s)) = vCount * 3"
    by (simp add: animate_vPos vortex_loop_length len)
  have meta': "vMeta (animate time ?s) = vMeta (initScene rnd)"
    by (simp add: animate_vMeta meta)
  have N: "real vCount = 4000" "vCount * 3 = 4000 * 3" "vCount * 2 = 4000 * 2"
    by (simp_all add: vCount_def)
  show ?thesis
    using x z y op len len' mlen meta meta' unfolding N by blast
qed

theorem vortex_particles_witness:
  "vMat_opacity (animate 1 (run [] (initScene rnd0))) = 0.4
   \<and> length (vPos (animate 1 (run [] (initScene rnd0)))) = 12000
   \<and> vPos (animate 1 (run [] (initScene rnd0))) ! 1
       = vPos (run [] (initScene rnd0)) ! 1 + cos 1 * 0.01"
  using vortex_particles [of 0 1 "[]" rnd0]
  by (simp add: animate_pinchFactor initScene_fields)

subsection \<open>C8: the detector is unavailable\<close>

text \<open>
  C8. In a session in which no pass of the detection loop finds a hand, however many
  frames it has, the target position stays what it was; the hand position after \<open>n\<close>
  frames is the point on the way from where it was to that target with its distance
  to the target multiplied by \<open>0.88 ^ n\<close>; one more frame multiplies the distance by
  0.88 again; the distance never exceeds the one at the start.
\<close>
theorem target_retained_while_unavailable:
  assumes "idle es"
  shows "targetHandPos (run es s) = targetHandPos s
    \<and> currentHandPos (run es s)
        = lerp (currentHandPos s) (targetHandPos s) (1 - 0.88 ^ ticks es)
    \<and> vdist (currentHandPos (run es s)) (targetHandPos s)
        = 0.88 ^ ticks es * vdist (currentHandPos s) (targetHandPos s)
    \<and> vdist (currentHandPos (run (es @ [Tick time]) s)) (targetHandPos s)
        = 0.88 * vdist (currentHandPos (run es s)) (targetHandPos s)
    \<and> vdist (currentHandPos (run es s)) (targetHandPos s)
        \<le> vdist (currentHandPos s) (targetHandPos s)"
proof -
  have c1: "targetHandPos (run es s) = targetHandPos s"
    using assms by (rule run_idle_targetHandPos)
  have c2: "currentHandPos (run es s)
        = lerp (currentHandPos s) (targetHandPos s) (1 - 0.88 ^ ticks es)"
    using assms by (rule run_idle_currentHandPos)
  have c3: "vdist (currentHandPos (run es s)) (targetHandPos s)
        = 0.88 ^ ticks es * vdist (currentHandPos s) (targetHandPos s)"
    using assms by (rule run_idle_vdist)
  have "run (es @ [Tick time]) s = animate time (run es s)"
    by (simp add: run_snoc)
  then have c4: "vdist (currentHandPos (run (es @ [Tick time]) s)) (targetHandPos s)
        = 0.88 * vdist (currentHandPos (run es s)) (targetHandPos s)"
    using animate_vdist [of time "run es s"] by (simp only: c1)
  have nn: "0 \<le> vdist (currentHandPos s) (targetHandPos s)"
    by (simp add: vdist_def)
  have "(0.88::real) ^ ticks es \<le> 1"
    by (intro power_le_one) simp_all
  then have "0.88 ^ ticks es * vdist (currentHandPos s) (targetHandPos s)
      \<le> 1 * vdist (currentHandPos s) (targetHandPos s)"
    using nn by (rule mult_right_mono)
  then have c5: "vdist (currentHandPos (run es s)) (targetHandPos s)
        \<le> vdist (currentHandPos s) (targetHandPos s)"
    by (simp only: c3 mult_1)
  show ?thesis
    using c1 c2 c3 c4 c5 by blast
qed

theorem target_retained_while_unavailable_witness:
  "targetHandPos (run [Detect NotDetected, Tick (1 / 60), Detect NotReady, Tick (2 / 60)]
       (updateHandInteraction (2/3) (1/2) False (initScene rnd0)))
     = \<lparr>vx = 10, vy = 0, vz = 15\<rparr>
   \<and> currentHandPos (run [Detect NotDetected, Tick (1 / 60), Detect NotReady, Tick (2 / 60)]
       (updateHandInteraction (2/3) (1/2) False (initScene rnd0)))
     = \<lparr>vx = 2.256, vy = 0, vz = 3.384\<rparr>"
  using target_retained_while_unavailable
     [of "[Detect NotDetected, Tick (1 / 60), Detect NotReady, Tick (2 / 60)]"
         "updateHandInteraction (2/3) (1/2) False (initScene rnd0)" 1]
  by (simp add: idle_def ticks_def updateHandInteraction_latch updateHandInteraction_frame
       initScene_fields lerp_def origin_def power2_eq_square)

subsection \<open>C9: adding a memory\<close>

text \<open>
  C9 says that the new artifact is oriented to face the scene centre. The callback
  calls \<open>lookAt (0, height, 0)\<close> with the artifact's own height: a load that draws
  1/4, 0 and 1/2 puts the artifact at (0, 10, 15) and makes it look at (0, 10, 0), which
  is not the centre (0, 0, 0).
\<close>
theorem lookAt_not_scene_centre:
  "map position (memories (addMemory Loaded (1/4) 0 (1/2) 0 (initScene rnd0)))
     = [\<lparr>vx = 0, vy = 10, vz = 15\<rparr>]
   \<and> map lookAtTarget (memories (addMemory Loaded (1/4) 0 (1/2) 0 (initScene rnd0)))
     = [\<lparr>vx = 0, vy = 10, vz = 0\<rparr>]
   \<and> \<lparr>vx = 0, vy = 10, vz = 0\<rparr> \<noteq> origin"
  by (simp add: addMemory_def onLoad_def Let_def initScene_fields origin_def)

text \<open>
  C9, amended. With the three random numbers in [0, 1): a successful load appends one
  artifact to the memories and changes none of the others; the new artifact has
  opacity 0 in both materials, the birth time is the elapsed time at the end of the
  load, its position is at distance \<open>15 + rnd2 * 8\<close>, in [15, 23], from the vertical axis
  and at height \<open>rnd3 * 30 - 5\<close>, in [-5, 25], and it looks at the point
  \<open>(0, height, 0)\<close> of the central vertical axis at its own height, so it faces the axis
  level and not the centre point. A failed load leaves the whole scene as it is, and no
  callback other than a successful load changes the number of artifacts.
\<close>
theorem addMemory_spawns_only_on_load:
  assumes "0 \<le> rnd1" "rnd1 < 1" "0 \<le> rnd2" "rnd2 < 1" "0 \<le> rnd3" "rnd3 < 1"
  shows "butlast (memories (addMemory Loaded rnd1 rnd2 rnd3 elapsed s)) = memories s
    \<and> length (memories (addMemory Loaded rnd1 rnd2 rnd3 elapsed s)) = Suc (length (memories s))
    \<and> matRefs (last (memories (addMemory Loaded rnd1 rnd2 rnd3 elapsed s))) = [0, 0]
    \<and> birth (last (memories (addMemory Loaded rnd1 rnd2 rnd3 elapsed s))) = elapsed
    \<and> position (last (memories (addMemory Loaded rnd1 rnd2 rnd3 elapsed s)))
        = \<lparr>vx = cos (rnd1 * pi * 2) * (15 + rnd2 * 8), vy = rnd3 * 30 - 5,
           vz = sin (rnd1 * pi * 2) * (15 + rnd2 * 8)\<rparr>
    \<and> 15 \<le> sqrt ((vx (position (last (memories (addMemory Loaded rnd1 rnd2 rnd3 elapsed s)))))\<^sup>2
               + (vz (position (last (memories (addMemory Loaded rnd1 rnd2 rnd3 elapsed s)))))\<^sup>2)
    \<and> sqrt ((vx (position (last (memories (addMemory Loaded rnd1 rnd2 rnd3 elapsed s)))))\<^sup>2
               + (vz (position (last (memories (addMemory Loaded rnd1 rnd2 rnd3 elapsed s)))))\<^sup>2) \<le> 23
    \<and> - 5 \<le> vy (position (last (memories (addMemory Loaded rnd1 rnd2 rnd3 elapsed s))))
    \<and> vy (position (last (memories (addMemory Loaded rnd1 rnd2 rnd3 elapsed s)))) \<le> 25
    \<and> lookAtTarget (last (memories (addMemory Loaded rnd1 rnd2 rnd3 elapsed s)))
        = \<lparr>vx = 0, vy = vy (position (last (memories (addMemory Loaded rnd1 rnd2 rnd3 elapsed s)))),
           vz = 0\<rparr>
    \<and> addMemory LoadFailed rnd1 rnd2 rnd3 elapsed s = s
    \<and> (\<not> loadedOk e \<longrightarrow> length (memories (step e s)) = length (memories s))"
proof -
  have rad: "sqrt ((cos (rnd1 * pi * 2) * (15 + rnd2 * 8))\<^sup>2
      + (sin (rnd1 * pi * 2) * (15 + rnd2 * 8))\<^sup>2) = 15 + rnd2 * 8"
    using assms by (intro annulus_radius) simp
  have lst: "last (memories (addMemory Loaded rnd1 rnd2 rnd3 elapsed s))
      = \<lparr>position = \<lparr>vx = cos (rnd1 * pi * 2) * (15 + rnd2 * 8), vy = rnd3 * 30 - 5,
           vz = sin (rnd1 * pi * 2) * (15 + rnd2 * 8)\<rparr>,
         lookAtTarget = \<lparr>vx = 0, vy = rnd3 * 30 - 5, vz = 0\<rparr>,
         birth = elapsed, matRefs = [0, 0]\<rparr>"
    by (simp add: addMemory_def onLoad_def Let_def)
  have bl: "butlast (memories (addMemory Loaded rnd1 rnd2 rnd3 elapsed s)) = memories s
    \<and> length (memories (addMemory Loaded rnd1 rnd2 rnd3 elapsed s)) = Suc (length (memories s))"
    by (simp add: addMemory_def onLoad_def Let_def)
  have fl: "addMemory LoadFailed rnd1 rnd2 rnd3 elapsed s = s"
    by (simp add: addMemory_def)
  have oth: "\<not> loadedOk e \<longrightarrow> length (memories (step e s)) = length (memories s)"
    by (simp add: step_memories_length)
  show ?thesis
    unfolding lst using assms rad bl fl oth by simp
qed

theorem addMemory_spawns_only_on_load_witness:
  "length (memories (addMemory Loaded (1/4) 0 (1/6) 0 (initScene rnd0))) = 1
   \<and> addMemory LoadFailed (1/4) 0 (1/6) 0 (initScene rnd0) = initScene rnd0
   \<and> length (memories (step (Load LoadFailed (1/4) 0 (1/6) 0) (initScene rnd0))) = 0"
  using addMemory_spawns_only_on_load
     [of "1/4" 0 "1/6" 0 "initScene rnd0" "Load LoadFailed (1/4) 0 (1/6) 0"]
  by (simp add: initScene_fields)

subsection \<open>C10: before the first hand update\<close>

text \<open>
  C10. In a session from the mounted scene in which \<open>updateHandInteraction\<close> is never
  called, after any number of frames, detection passes and image loads, the target
  position and the hand position are (0, 0, 0), the trail array holds 180 zeros, and so
  every one of the 60 trail slots is (0, 0, 0).
\<close>
theorem origin_until_first_hand:
  assumes "idle es"
  shows "targetHandPos (run es (initScene rnd)) = origin
    \<and> currentHandPos (run es (initScene rnd)) = origin
    \<and> tArray (run es (initScene rnd)) = replicate 180 0
    \<and> map (slot (tArray (run es (initScene rnd)))) [0..<60] = replicate 60 origin"
proof -
  have t: "targetHandPos (run es (initScene rnd)) = origin"
    using assms by (simp add: run_idle_targetHandPos initScene_fields)
  have r: "currentHandPos (run es (initScene rnd)) = origin
      \<and> tArray (run es (initScene rnd)) = replicate (tCount * 3) 0"
    using assms by (intro run_idle_rest) (simp_all add: initScene_fields)
  have s: "map (slot (tArray (run es (initScene rnd)))) [0..<tCount] = replicate tCount origin"
    using r by (simp only: slots_zero)
  show ?thesis using t r s by (simp add: tCount_def)
qed

theorem origin_until_first_hand_witness:
  "currentHandPos (run [Tick (1 / 60), Detect NotDetected, Load Loaded (1/4) 0 (1/6) 1, Tick (2 / 60)]
      (initScene rnd0)) = origin
   \<and> tArray (run [Tick (1 / 60), Detect NotDetected, Load Loaded (1/4) 0 (1/6) 1, Tick (2 / 60)]
      (initScene rnd0)) = replicate 180 0"
  using origin_until_first_hand
    [of "[Tick (1 / 60), Detect NotDetected, Load Loaded (1/4) 0 (1/6) 1, Tick (2 / 60)]" rnd0]
  by (simp add: idle_def)

end
